theory Spec2Isabelle
  imports Main "HOL-Library.Signed_Division"
begin

section \<open>Strings and formatting helpers\<close>

text \<open>
  Go strings are byte sequences; they are modelled as \<^typ>\<open>string\<close>. The helpers below
  are the standard-library functions the program calls on strings, for the arguments it
  calls them with.
\<close>

abbreviation nl :: string where
  "nl \<equiv> [CHR 0x0A]"

text \<open>
  \<^verbatim>\<open>strings.Split(s, " ")\<close>: the separator is always the one-byte string holding a
  space, so the model takes the separator as a character. The second branch of the
  \<open>case\<close> is never taken (the result of a split is never empty); it is there because
  every HOL function is total.
\<close>

fun strings_Split :: "string \<Rightarrow> char \<Rightarrow> string list" where
  "strings_Split [] sep = [[]]"
| "strings_Split (c # cs) sep =
     (if c = sep then [] # strings_Split cs sep
      else (case strings_Split cs sep of
              part # parts \<Rightarrow> (c # part) # parts
            | [] \<Rightarrow> [[c]]))"

fun strings_Join :: "string list \<Rightarrow> string \<Rightarrow> string" where
  "strings_Join [] sep = []"
| "strings_Join [e] sep = e"
| "strings_Join (e # e' # es) sep = e @ sep @ strings_Join (e' # es) sep"

text \<open>The verb \<^verbatim>\<open>%d\<close> of \<^verbatim>\<open>fmt\<close>: an integer in decimal.\<close>

definition digit :: "nat \<Rightarrow> char" where
  "digit n = ''0123456789'' ! n"

fun digits :: "nat \<Rightarrow> string" where
  "digits n = (if n < 10 then [digit n] else digits (n div 10) @ [digit (n mod 10)])"

declare digits.simps [simp del]

definition fmt_d :: "int \<Rightarrow> string" where
  "fmt_d i = (if i < 0 then ''-'' @ digits (nat (- i)) else digits (nat i))"

section \<open>Configuration (config.go)\<close>

text \<open>
  The struct \<^verbatim>\<open>Config\<close>. Go's \<^verbatim>\<open>int\<close> fields are only stored and printed, never
  computed with, so they are modelled as \<^typ>\<open>int\<close>.
\<close>

record Config =
  RTMPUrl :: string
  FFmpegPath :: string
  FontSize :: int
  FontColor :: string
  BackgroundColor :: string
  OutputFile :: string
  ShowTimestamp :: bool
  TimestampFormat :: string
  ScreenWidth :: int
  ScreenHeight :: int
  RecordSession :: bool
  RecordPath :: string
  SplitScreen :: bool
  SplitCommands :: "string list"
  ThemeName :: string

text \<open>
  The struct \<^verbatim>\<open>ThemePreset\<close>. Its fields \<^verbatim>\<open>FontColor\<close> and \<^verbatim>\<open>BackgroundColor\<close>
  carry the suffix \<open>_t\<close> here, since \<^typ>\<open>Config\<close> has fields of the same names.
\<close>

record ThemePreset =
  Name :: string
  FontColor_t :: string
  BackgroundColor_t :: string
  BorderColor :: string
  HighlightColor :: string

definition GetDefaultConfig :: Config where
  "GetDefaultConfig =
     \<lparr> RTMPUrl = [], FFmpegPath = ''ffmpeg'', FontSize = 24, FontColor = ''white'',
       BackgroundColor = ''black'', OutputFile = [], ShowTimestamp = False,
       TimestampFormat = ''2006-01-02 15:04:05'', ScreenWidth = 1280, ScreenHeight = 720,
       RecordSession = False, RecordPath = ''./recordings'', SplitScreen = False,
       SplitCommands = [], ThemeName = ''default'' \<rparr>"

definition GetThemePresets :: "string \<rightharpoonup> ThemePreset" where
  "GetThemePresets =
     [ ''default'' \<mapsto>
         \<lparr> Name = ''Default'', FontColor_t = ''white'', BackgroundColor_t = ''black'',
           BorderColor = ''gray'', HighlightColor = ''blue'' \<rparr>,
       ''hacker'' \<mapsto>
         \<lparr> Name = ''Hacker'', FontColor_t = ''lime'', BackgroundColor_t = ''black'',
           BorderColor = ''green'', HighlightColor = ''red'' \<rparr>,
       ''solarized'' \<mapsto>
         \<lparr> Name = ''Solarized'', FontColor_t = ''#839496'', BackgroundColor_t = ''#002b36'',
           BorderColor = ''#586e75'', HighlightColor = ''#268bd2'' \<rparr>,
       ''light'' \<mapsto>
         \<lparr> Name = ''Light'', FontColor_t = ''#222222'', BackgroundColor_t = ''#f9f9f9'',
           BorderColor = ''#dddddd'', HighlightColor = ''#0066cc'' \<rparr>,
       ''monokai'' \<mapsto>
         \<lparr> Name = ''Monokai'', FontColor_t = ''#f8f8f2'', BackgroundColor_t = ''#272822'',
           BorderColor = ''#75715e'', HighlightColor = ''#f92672'' \<rparr> ]"

text \<open>
  Every \<^verbatim>\<open>error\<close> value the program builds. Where the program wraps an error of the
  operating system with \<^verbatim>\<open>%v\<close>, the constructor carries that error's text.
\<close>

datatype error =
    AlreadyStreaming
  | NotStreaming
  | AlreadyRecording
  | NotRecording
  | EmptyCommand
  | StdoutPipeError string
  | StderrPipeError string
  | StartError string
  | ExitError int
  | TempFileError string
  | OutputWriteError string
  | FFmpegStartError string
  | FFmpegKillError string
  | RecordDirError string
  | RecordWriteError string
  | NoCommands
  | ThemeNotFound string
  | ConfigReadError string
  | ConfigUnmarshalError string

text \<open>
  \<^verbatim>\<open>func (c *Config) ApplyTheme(themeName string) error\<close>: the receiver is passed in and
  the updated receiver is returned beside the error (\<open>None\<close> is \<^verbatim>\<open>nil\<close>).
\<close>

definition ApplyTheme :: "string \<Rightarrow> Config \<Rightarrow> error option \<times> Config" where
  "ApplyTheme themeName c =
     (case GetThemePresets themeName of
        None \<Rightarrow> (Some (ThemeNotFound themeName), c)
      | Some theme \<Rightarrow>
          (None, c\<lparr> ThemeName := themeName,
                    FontColor := FontColor_t theme,
                    BackgroundColor := BackgroundColor_t theme \<rparr>))"

section \<open>The standard library and the operating system\<close>

text \<open>
  Functions of Go's standard library whose results the program only passes on are
  parameters of the model: formatting a time with a layout, printing a duration, joining
  two path elements, decoding JSON into a \<^typ>\<open>Config\<close> (the result is the error's
  text when decoding fails, and the target as the attempt left it). \<open>os_Args\<close> is the
  command line of the running program.
\<close>

record stdlib =
  time_Format :: "string \<Rightarrow> int \<Rightarrow> string"
  duration_String :: "int \<Rightarrow> string"
  filepath_Join :: "string \<Rightarrow> string \<Rightarrow> string"
  json_Unmarshal :: "string \<Rightarrow> Config \<Rightarrow> string option \<times> Config"
  os_Args :: "string list"

text \<open>
  What starting a command line leads to: the start fails with an error, or the child runs,
  writes these lines to its standard output and these to its standard error (each line
  without its terminating newline), and exits with this status.
\<close>

datatype spawn =
    StartFails string
  | Runs "string list" "string list" int

text \<open>
  The world outside the program: the files (path to content) and directories, what has
  been printed on the program's own standard output and standard error, the argument
  vectors handed to \<^verbatim>\<open>cmd.Start\<close> so far, the children started and not killed.
  The remaining fields decide what the program cannot: \<open>clock\<close> is the wall clock read
  at each step (nanoseconds), \<open>fails\<close> says whether the system call made at a step fails
  (with the error's text), \<open>rnd\<close> supplies process ids, the random part of temporary
  file names and the scheduler's choices, and \<open>exec\<close> says what each command line does.
  \<open>ticks\<close> counts the steps taken.
\<close>

record world =
  files :: "string \<rightharpoonup> string"
  dirs :: "string set"
  term_out :: string
  term_err :: string
  started :: "string list list"
  children :: "nat list"
  ticks :: nat
  clock :: "nat \<Rightarrow> int"
  fails :: "nat \<Rightarrow> string option"
  rnd :: "nat \<Rightarrow> nat"
  exec :: "string list \<Rightarrow> spawn"

definition tick :: "world \<Rightarrow> world" where
  "tick w = w\<lparr> ticks := Suc (ticks w) \<rparr>"

definition time_Now :: "world \<Rightarrow> int \<times> world" where
  "time_Now w = (clock w (ticks w), tick w)"

definition os_call :: "world \<Rightarrow> string option \<times> world" where
  "os_call w = (fails w (ticks w), tick w)"

definition os_rnd :: "world \<Rightarrow> nat \<times> world" where
  "os_rnd w = (rnd w (ticks w), tick w)"

definition fmt_Print :: "string \<Rightarrow> world \<Rightarrow> world" where
  "fmt_Print text w = w\<lparr> term_out := term_out w @ text \<rparr>"

definition fmt_Eprint :: "string \<Rightarrow> world \<Rightarrow> world" where
  "fmt_Eprint text w = w\<lparr> term_err := term_err w @ text \<rparr>"

text \<open>
  \<^verbatim>\<open>os.WriteFile\<close> creates or truncates the file and writes the data. A failing call is
  taken to fail before anything is written.
\<close>

definition os_WriteFile :: "string \<Rightarrow> string \<Rightarrow> world \<Rightarrow> string option \<times> world" where
  "os_WriteFile name data w =
     (case os_call w of
        (Some err, w1) \<Rightarrow> (Some err, w1)
      | (None, w1) \<Rightarrow> (None, w1\<lparr> files := (files w1)(name \<mapsto> data) \<rparr>))"



text \<open>
  \<^verbatim>\<open>os.CreateTemp("", "shellcast_*.txt")\<close>: a new, empty file whose name has a random
  number in place of the star; the default directory for temporary files is taken to be
  \<^verbatim>\<open>/tmp\<close>. The call never reuses an existing name.
\<close>

definition os_CreateTemp :: "world \<Rightarrow> (string + string) \<times> world" where
  "os_CreateTemp w =
     (case os_call w of
        (Some err, w1) \<Rightarrow> (Inl err, w1)
      | (None, w1) \<Rightarrow>
          (case os_rnd w1 of
             (r, w2) \<Rightarrow>
               (let name = ''/tmp/shellcast_'' @ fmt_d (int r) @ ''.txt'' in
                if files w2 name = None
                then (Inr name, w2\<lparr> files := (files w2)(name \<mapsto> []) \<rparr>)
                else (Inl ''file exists'', w2))))"

text \<open>\<^verbatim>\<open>os.Remove\<close>, for a path of a file.\<close>

definition os_Remove :: "string \<Rightarrow> world \<Rightarrow> string option \<times> world" where
  "os_Remove name w =
     (case os_call w of
        (Some err, w1) \<Rightarrow> (Some err, w1)
      | (None, w1) \<Rightarrow> (None, w1\<lparr> files := (files w1)(name := None) \<rparr>))"

definition os_Stat_IsNotExist :: "string \<Rightarrow> world \<Rightarrow> bool" where
  "os_Stat_IsNotExist path w = (files w path = None \<and> path \<notin> dirs w)"

definition os_MkdirAll :: "string \<Rightarrow> world \<Rightarrow> string option \<times> world" where
  "os_MkdirAll path w =
     (case os_call w of
        (Some err, w1) \<Rightarrow> (Some err, w1)
      | (None, w1) \<Rightarrow> (None, w1\<lparr> dirs := insert path (dirs w1) \<rparr>))"

text \<open>
  \<^verbatim>\<open>cmd.Start()\<close> for a command whose output is not read by the program (the encoder):
  the attempt is recorded, and the world decides whether the child starts.
\<close>

definition cmd_Start :: "string list \<Rightarrow> world \<Rightarrow> (string + nat) \<times> world" where
  "cmd_Start argv w =
     (let w1 = w\<lparr> started := started w @ [argv] \<rparr> in
      case exec w1 argv of
        StartFails err \<Rightarrow> (Inl err, w1)
      | Runs outs errs code \<Rightarrow>
          (case os_rnd w1 of
             (p, w2) \<Rightarrow> (Inr p, w2\<lparr> children := children w2 @ [p] \<rparr>)))"

definition proc_Kill :: "nat \<Rightarrow> world \<Rightarrow> string option \<times> world" where
  "proc_Kill p w =
     (case os_call w of
        (Some err, w1) \<Rightarrow> (Some err, w1)
      | (None, w1) \<Rightarrow> (None, w1\<lparr> children := removeAll p (children w1) \<rparr>))"


section \<open>The session (shellcast.go)\<close>

text \<open>
  The struct \<^verbatim>\<open>ShellCast\<close>, without its mutex. \<open>streamProc\<close> is a pointer to the
  encoder's process: \<open>None\<close> is \<^verbatim>\<open>nil\<close>. Times are nanoseconds on the wall clock.
  Methods take the session and the world and return both, after the error where the
  method returns one.
\<close>

record ShellCast =
  config :: Config
  outputBuffer :: string
  streaming :: bool
  streamProc :: "nat option"
  recording :: bool
  recordPath :: string
  startTime :: int

definition NewShellCast :: "Config \<Rightarrow> world \<Rightarrow> ShellCast \<times> world" where
  "NewShellCast cfg w =
     (case time_Now w of
        (now, w1) \<Rightarrow>
          (\<lparr> config = cfg, outputBuffer = [], streaming = False, streamProc = None,
             recording = False, recordPath = [], startTime = now \<rparr>, w1))"

definition formatOutput :: "stdlib \<Rightarrow> ShellCast \<Rightarrow> string \<Rightarrow> world \<Rightarrow> string \<times> world" where
  "formatOutput L s line w =
     (if ShowTimestamp (config s)
      then (case time_Now w of
              (now, w1) \<Rightarrow>
                (''['' @ time_Format L (TimestampFormat (config s)) now @ ''] '' @ line, w1))
      else (line, w))"

text \<open>
  \<^verbatim>\<open>appendToFile\<close>: the file is opened for appending and created when missing, then the
  text is written; either step can fail. A failing write is taken to write nothing.
\<close>

definition appendToFile :: "string \<Rightarrow> string \<Rightarrow> world \<Rightarrow> string option \<times> world" where
  "appendToFile filename text w =
     (case os_call w of
        (Some err, w1) \<Rightarrow> (Some err, w1)
      | (None, w1) \<Rightarrow>
          (let old = (case files w1 filename of None \<Rightarrow> [] | Some content \<Rightarrow> content) in
           case os_call w1 of
             (Some err, w2) \<Rightarrow> (Some err, w2\<lparr> files := (files w2)(filename \<mapsto> old) \<rparr>)
           | (None, w2) \<Rightarrow> (None, w2\<lparr> files := (files w2)(filename \<mapsto> old @ text) \<rparr>)))"

subsection \<open>Reading a child's output\<close>

text \<open>
  \<^verbatim>\<open>bufio.NewScanner\<close> with its default settings splits a stream into lines, drops one
  carriage return from the end of each, and stops for good at the first line that does
  not fit into its buffer together with its newline: \<^verbatim>\<open>MaxScanTokenSize\<close> is
  \<^verbatim>\<open>64 * 1024\<close> bytes. \<open>scanLines\<close> gives the texts \<^verbatim>\<open>scanner.Text()\<close> returns
  while \<^verbatim>\<open>scanner.Scan()\<close> is true, for a stream that consists of the given lines.
\<close>

definition MaxScanTokenSize :: nat where
  "MaxScanTokenSize = 64 * 1024"

definition dropCR :: "string \<Rightarrow> string" where
  "dropCR data = (if data \<noteq> [] \<and> last data = CHR 0x0D then butlast data else data)"

definition scanLines :: "string list \<Rightarrow> string list" where
  "scanLines raw = map dropCR (takeWhile (\<lambda>l. length l < MaxScanTokenSize) raw)"

datatype origin = Stdout | Stderr

text \<open>
  The body of the four \<^verbatim>\<open>for scanner.Scan()\<close> loops, which differ only in the stream
  they print to and in the text they hand to \<open>formatOutput\<close> (the line, or in split mode
  the prefix and the line). Errors of \<open>appendToFile\<close> are dropped, as in the program.
  One pass through the body is one step of the model: the program guards the append to
  the buffer with its mutex, and the model lets no other goroutine run between the
  statements of one pass.
\<close>

definition scanBody :: "stdlib \<Rightarrow> origin \<Rightarrow> string \<Rightarrow> ShellCast \<times> world \<Rightarrow> ShellCast \<times> world" where
  "scanBody L src text sw =
     (case sw of
        (s, w) \<Rightarrow>
          (case formatOutput L s text w of
             (formattedLine, w1) \<Rightarrow>
               (let w2 = (case src of
                            Stdout \<Rightarrow> fmt_Print (formattedLine @ nl) w1
                          | Stderr \<Rightarrow> fmt_Eprint (formattedLine @ nl) w1);
                    s' = s\<lparr> outputBuffer := outputBuffer s @ formattedLine @ nl \<rparr>;
                    w3 = (if streaming s' \<and> OutputFile (config s') \<noteq> []
                          then snd (appendToFile (OutputFile (config s')) (formattedLine @ nl) w2)
                          else w2);
                    w4 = (if recording s' \<and> recordPath s' \<noteq> []
                          then snd (appendToFile (recordPath s') (formattedLine @ nl) w3)
                          else w3)
                in (s', w4))))"

text \<open>
  The two goroutines of \<open>ExecuteCommand\<close> read the child's standard output and standard
  error until both are exhausted (the function waits for both). While both have a line
  left, the scheduler decides which goroutine runs its loop body next.
\<close>

fun drain2 :: "stdlib \<Rightarrow> string list \<Rightarrow> string list \<Rightarrow> ShellCast \<times> world \<Rightarrow> ShellCast \<times> world" where
  "drain2 L [] [] sw = sw"
| "drain2 L (x # xs) [] sw = drain2 L xs [] (scanBody L Stdout x sw)"
| "drain2 L [] (y # ys) sw = drain2 L [] ys (scanBody L Stderr y sw)"
| "drain2 L (x # xs) (y # ys) sw =
     (if even (fst (os_rnd (snd sw)))
      then drain2 L xs (y # ys) (scanBody L Stdout x (fst sw, snd (os_rnd (snd sw))))
      else drain2 L (x # xs) ys (scanBody L Stderr y (fst sw, snd (os_rnd (snd sw)))))"

definition ExecuteCommand :: "stdlib \<Rightarrow> string \<Rightarrow> ShellCast \<times> world \<Rightarrow> error option \<times> ShellCast \<times> world" where
  "ExecuteCommand L command sw =
     (case sw of
        (s, w) \<Rightarrow>
          (let parts = strings_Split command CHR '' '' in
           if length parts = 0 then (Some EmptyCommand, s, w)
           else
             (case os_call w of
                (Some err, w1) \<Rightarrow> (Some (StdoutPipeError err), s, w1)
              | (None, w1) \<Rightarrow>
             (case os_call w1 of
                (Some err, w2) \<Rightarrow> (Some (StderrPipeError err), s, w2)
              | (None, w2) \<Rightarrow>
             (let w3 = w2\<lparr> started := started w2 @ [parts] \<rparr> in
              case exec w3 parts of
                StartFails err \<Rightarrow> (Some (StartError err), s, w3)
              | Runs outs errs code \<Rightarrow>
                  (case drain2 L (scanLines outs) (scanLines errs) (s, w3) of
                     (s', w4) \<Rightarrow>
                       (if code = 0 then None else Some (ExitError code), s', w4)))))))"

subsection \<open>Streaming\<close>

definition createVideoFilter :: "ShellCast \<Rightarrow> string" where
  "createVideoFilter s =
     (let filter' =
            ''drawtext=fontfile=/usr/share/fonts/truetype/dejavu/DejaVuSansMono.ttf:fontcolor=''
            @ FontColor (config s) @ '':fontsize='' @ fmt_d (FontSize (config s))
            @ '':box=1:boxcolor='' @ BackgroundColor (config s) @ '':x=20:y=20:text=''
            @ [CHR 0x27] @ ''%{eif'' @ [CHR 0x5C] @ '':n'' @ [CHR 0x5C] @ '':d}'' @ [CHR 0x27]
      in if ShowTimestamp (config s)
         then filter'
              @ '',drawtext=fontfile=/usr/share/fonts/truetype/dejavu/DejaVuSansMono.ttf:''
              @ ''fontcolor='' @ FontColor (config s) @ '':fontsize='' @ fmt_d (FontSize (config s))
              @ '':box=1:boxcolor='' @ BackgroundColor (config s) @ '':x=w-200:y=20:text=''
              @ [CHR 0x27] @ ''%{localtime}'' @ [CHR 0x27]
         else filter')"

text \<open>
  The command line \<open>StartStreaming\<close> builds for the encoder: the program, then its
  arguments.
\<close>

definition ffmpegCommand :: "ShellCast \<Rightarrow> string list" where
  "ffmpegCommand s =
     (let ffmpegPath = (if FFmpegPath (config s) = [] then ''ffmpeg''
                        else FFmpegPath (config s));
          vfFilter = createVideoFilter s;
          args = [''-re'', ''-f'', ''concat'', ''-safe'', ''0'',
                  ''-i'', OutputFile (config s),
                  ''-vf'', vfFilter,
                  ''-c:v'', ''libx264'',
                  ''-preset'', ''ultrafast'',
                  ''-s'', fmt_d (ScreenWidth (config s)) @ ''x''
                          @ fmt_d (ScreenHeight (config s)),
                  ''-f'', ''flv'',
                  RTMPUrl (config s)]
      in ffmpegPath # args)"

definition StartStreaming :: "ShellCast \<times> world \<Rightarrow> error option \<times> ShellCast \<times> world" where
  "StartStreaming sw =
     (case sw of
        (s, w) \<Rightarrow>
          if streaming s then (Some AlreadyStreaming, s, w)
          else
            (case (if OutputFile (config s) = []
                   then (case os_CreateTemp w of
                           (Inl err, w1) \<Rightarrow> (Some err, s, w1)
                         | (Inr name, w1) \<Rightarrow>
                             (None, s\<lparr> config := (config s)\<lparr> OutputFile := name \<rparr> \<rparr>, w1))
                   else (None, s, w)) of
               (Some err, s1, w1) \<Rightarrow> (Some (TempFileError err), s1, w1)
             | (None, s1, w1) \<Rightarrow>
            (case os_WriteFile (OutputFile (config s1)) (outputBuffer s1) w1 of
               (Some err, w2) \<Rightarrow> (Some (OutputWriteError err), s1, w2)
             | (None, w2) \<Rightarrow>
            (case cmd_Start (ffmpegCommand s1) w2 of
               (Inl err, w3) \<Rightarrow> (Some (FFmpegStartError err), s1, w3)
             | (Inr p, w3) \<Rightarrow>
                 (None, s1\<lparr> streamProc := Some p, streaming := True \<rparr>,
                  fmt_Print (''Streaming started to '' @ RTMPUrl (config s1) @ nl) w3)))))"

definition StopStreaming :: "ShellCast \<times> world \<Rightarrow> error option \<times> ShellCast \<times> world" where
  "StopStreaming sw =
     (case sw of
        (s, w) \<Rightarrow>
          (case (if \<not> streaming s then None else streamProc s) of
             None \<Rightarrow> (Some NotStreaming, s, w)
           | Some p \<Rightarrow>
               (case proc_Kill p w of
                  (Some err, w1) \<Rightarrow> (Some (FFmpegKillError err), s, w1)
                | (None, w1) \<Rightarrow>
                    (let s1 = s\<lparr> streaming := False, streamProc := None \<rparr> in
                     if OutputFile (config s1) \<noteq> []
                     then (None, s1\<lparr> config := (config s1)\<lparr> OutputFile := [] \<rparr> \<rparr>,
                           fmt_Print (''Streaming stopped'' @ nl)
                             (snd (os_Remove (OutputFile (config s1)) w1)))
                     else (None, s1, fmt_Print (''Streaming stopped'' @ nl) w1)))))"

subsection \<open>Recording\<close>

text \<open>
  The header \<open>StartRecording\<close> writes, for the time read when it is built.
\<close>

definition recordingHeader :: "stdlib \<Rightarrow> ShellCast \<Rightarrow> int \<Rightarrow> string" where
  "recordingHeader L s now =
     ''ShellCast Recording - Started at ''
     @ time_Format L (TimestampFormat (config s)) now @ nl
     @ ''Command: '' @ strings_Join (os_Args L) '' '' @ nl
     @ replicate 80 CHR ''-'' @ nl @ nl"

definition StartRecording :: "stdlib \<Rightarrow> ShellCast \<times> world \<Rightarrow> error option \<times> ShellCast \<times> world" where
  "StartRecording L sw =
     (case sw of
        (s, w) \<Rightarrow>
          if recording s then (Some AlreadyRecording, s, w)
          else
            (case (if os_Stat_IsNotExist (RecordPath (config s)) w
                   then os_MkdirAll (RecordPath (config s)) w
                   else (None, w)) of
               (Some err, w1) \<Rightarrow> (Some (RecordDirError err), s, w1)
             | (None, w1) \<Rightarrow>
            (case time_Now w1 of
               (now1, w2) \<Rightarrow>
            (let timestamp = time_Format L ''2006-01-02_15-04-05'' now1;
                 filename = ''shellcast_'' @ timestamp @ ''.txt'';
                 s1 = s\<lparr> recordPath := filepath_Join L (RecordPath (config s)) filename \<rparr>
             in case time_Now w2 of
                  (now2, w3) \<Rightarrow>
                    (case os_WriteFile (recordPath s1) (recordingHeader L s1 now2) w3 of
                       (Some err, w4) \<Rightarrow> (Some (RecordWriteError err), s1, w4)
                     | (None, w4) \<Rightarrow>
                         (None, s1\<lparr> recording := True \<rparr>,
                          fmt_Print (''Recording started: '' @ recordPath s1 @ nl) w4))))))"

text \<open>
  \<^verbatim>\<open>Duration.Round(m)\<close>: to the nearest multiple of \<open>m\<close>, halves away from zero. A
  \<^verbatim>\<open>Duration\<close> is a count of nanoseconds; the saturation of Go's 64-bit durations
  after about 292 years is left out.
\<close>

definition duration_Round :: "int \<Rightarrow> int \<Rightarrow> int" where
  "duration_Round d m =
     (if m \<le> 0 then d
      else (let r = d smod m in
            if d < 0
            then (let r' = - r in if r' + r' < m then d + r' else d - m + r')
            else (if r + r < m then d - r else d + m - r)))"

definition Second :: int where
  "Second = 1000000000"

text \<open>
  The footer \<open>StopRecording\<close> writes: \<open>now\<close> is the time read for the line
  \<^verbatim>\<open>Recording ended at\<close>, \<open>now'\<close> the time \<^verbatim>\<open>time.Since\<close> reads.
\<close>

definition recordingFooter :: "stdlib \<Rightarrow> ShellCast \<Rightarrow> int \<Rightarrow> int \<Rightarrow> string" where
  "recordingFooter L s now now' =
     nl @ nl @ replicate 80 CHR ''-'' @ nl
     @ ''Recording ended at '' @ time_Format L (TimestampFormat (config s)) now @ nl
     @ ''Duration: ''
     @ duration_String L (duration_Round (now' - startTime s) Second) @ nl"

definition StopRecording :: "stdlib \<Rightarrow> ShellCast \<times> world \<Rightarrow> error option \<times> ShellCast \<times> world" where
  "StopRecording L sw =
     (case sw of
        (s, w) \<Rightarrow>
          if \<not> recording s then (Some NotRecording, s, w)
          else
            (case time_Now w of
               (now1, w1) \<Rightarrow>
            (case time_Now w1 of
               (now2, w2) \<Rightarrow>
                 (case appendToFile (recordPath s) (recordingFooter L s now1 now2) w2 of
                    (Some err, w3) \<Rightarrow> (Some (RecordWriteError err), s, w3)
                  | (None, w3) \<Rightarrow>
                      (None, s\<lparr> recording := False \<rparr>,
                       fmt_Print (''Recording stopped: '' @ recordPath s @ nl) w3)))))"

definition Cleanup :: "stdlib \<Rightarrow> ShellCast \<times> world \<Rightarrow> ShellCast \<times> world" where
  "Cleanup L sw =
     (let sw1 = (if streaming (fst sw) then snd (StopStreaming sw) else sw);
          sw2 = (if recording (fst sw1) then snd (StopRecording L sw1) else sw1)
      in sw2)"

subsection \<open>Split mode\<close>

text \<open>
  One reading loop of split mode: the stream it prints to, the prefix of its command,
  and the lines it has not read yet.
\<close>

type_synonym reader = "origin \<times> string \<times> string list"

text \<open>
  The goroutine \<open>ExecuteSplitCommands\<close> starts for the command at index \<open>idx\<close>, up to
  the point where it has started its two reading goroutines: the readers it started, the
  message it prints when \<^verbatim>\<open>cmd.Wait()\<close> has returned, and the world. The workers run
  concurrently; \<open>splitWorkers\<close> takes them in the order of the list, and their
  completion messages are printed after the readers' steps, which is one of the orders
  the terminal can show.
\<close>

definition splitWorker :: "nat \<Rightarrow> string \<Rightarrow> world \<Rightarrow> reader list \<times> string \<times> world" where
  "splitWorker idx command w =
     (let prefix = ''[CMD'' @ fmt_d (int idx + 1) @ ''] '';
          parts = strings_Split command CHR '' '' in
      if length parts = 0 then ([], [], fmt_Print (prefix @ ''Empty command'' @ nl) w)
      else
        (case os_call w of
           (Some err, w1) \<Rightarrow>
             ([], [], fmt_Eprint (prefix @ ''Error creating stdout pipe: '' @ err @ nl) w1)
         | (None, w1) \<Rightarrow>
        (case os_call w1 of
           (Some err, w2) \<Rightarrow>
             ([], [], fmt_Eprint (prefix @ ''Error creating stderr pipe: '' @ err @ nl) w2)
         | (None, w2) \<Rightarrow>
        (let w3 = w2\<lparr> started := started w2 @ [parts] \<rparr> in
         case exec w3 parts of
           StartFails err \<Rightarrow>
             ([], [], fmt_Eprint (prefix @ ''Error starting command: '' @ err @ nl) w3)
         | Runs outs errs code \<Rightarrow>
             ([(Stdout, prefix, scanLines outs), (Stderr, prefix, scanLines errs)],
              prefix @ ''Command completed'' @ nl, w3)))))"

fun splitWorkers :: "nat \<Rightarrow> string list \<Rightarrow> world \<Rightarrow> reader list \<times> string \<times> world" where
  "splitWorkers idx [] w = ([], [], w)"
| "splitWorkers idx (cmd # cmds) w =
     (case splitWorker idx cmd w of
        (rs, msg, w1) \<Rightarrow>
          (case splitWorkers (Suc idx) cmds w1 of
             (rs', msgs, w2) \<Rightarrow> (rs @ rs', msg @ msgs, w2)))"

text \<open>
  The reading goroutines of split mode are not waited for: each worker calls
  \<^verbatim>\<open>cmd.Wait()\<close> while they run, and \<open>ExecuteSplitCommands\<close> returns when the workers
  are done. So by the time it returns the readers have run their loop bodies some number
  of times, in some order: the scheduler picks the number of steps and, at each step, the
  reader that runs (a step that picks a reader with nothing left to read does nothing).
\<close>

definition readerStep :: "stdlib \<Rightarrow> nat \<Rightarrow> reader list \<Rightarrow> ShellCast \<times> world \<Rightarrow> reader list \<times> ShellCast \<times> world" where
  "readerStep L i rs sw =
     (if i < length rs
      then (case rs ! i of
              (src, prefix, []) \<Rightarrow> (rs, sw)
            | (src, prefix, line # rest) \<Rightarrow>
                (rs[i := (src, prefix, rest)], scanBody L src (prefix @ line) sw))
      else (rs, sw))"

fun readerSteps :: "stdlib \<Rightarrow> nat \<Rightarrow> reader list \<Rightarrow> ShellCast \<times> world \<Rightarrow> ShellCast \<times> world" where
  "readerSteps L 0 rs sw = sw"
| "readerSteps L (Suc n) rs sw =
     (case os_rnd (snd sw) of
        (i, w1) \<Rightarrow>
          (case readerStep L i rs (fst sw, w1) of
             (rs', sw') \<Rightarrow> readerSteps L n rs' sw'))"

definition ExecuteSplitCommands :: "stdlib \<Rightarrow> string list \<Rightarrow> ShellCast \<times> world \<Rightarrow> error option \<times> ShellCast \<times> world" where
  "ExecuteSplitCommands L commands sw =
     (case sw of
        (s, w) \<Rightarrow>
          if length commands = 0 then (Some NoCommands, s, w)
          else
            (case splitWorkers 0 commands w of
               (rs, msgs, w1) \<Rightarrow>
                 (case os_rnd w1 of
                    (n, w2) \<Rightarrow>
                      (case readerSteps L n rs (s, w2) of
                         (s', w3) \<Rightarrow> (None, s', fmt_Print msgs w3)))))"

subsection \<open>Sequences of lifecycle calls\<close>

datatype call = CallStartStreaming | CallStopStreaming | CallStartRecording
  | CallStopRecording | CallCleanup

fun perform :: "stdlib \<Rightarrow> call \<Rightarrow> ShellCast \<times> world \<Rightarrow> ShellCast \<times> world" where
  "perform L CallStartStreaming sw = snd (StartStreaming sw)"
| "perform L CallStopStreaming sw = snd (StopStreaming sw)"
| "perform L CallStartRecording sw = snd (StartRecording L sw)"
| "perform L CallStopRecording sw = snd (StopRecording L sw)"
| "perform L CallCleanup sw = Cleanup L sw"

fun performAll :: "stdlib \<Rightarrow> call list \<Rightarrow> ShellCast \<times> world \<Rightarrow> ShellCast \<times> world" where
  "performAll L [] sw = sw"
| "performAll L (c # cs) sw = performAll L cs (perform L c sw)"

section \<open>Concrete surroundings for the checks at explicit inputs\<close>

text \<open>
  A stand-in standard library and a quiet world, used where a theorem is applied to an
  explicit input: a time is printed as its whole seconds whatever the layout, a duration
  in whole seconds, path elements are joined with a slash, and only the text \<^verbatim>\<open>{}\<close>
  decodes. In the quiet world no system call fails, the clock advances one second per
  step, no file exists and no command can be started. In \<open>world1\<close> every command writes
  the line \<^verbatim>\<open>A\<close> to its standard output, the line \<^verbatim>\<open>E\<close> to its standard error and
  exits with status 0. \<open>session0\<close> is a new session with the default configuration.
\<close>

definition lib0 :: stdlib where
  "lib0 =
     \<lparr> time_Format = (\<lambda>layout t. fmt_d (t div 1000000000)),
       duration_String = (\<lambda>d. fmt_d (d div 1000000000) @ ''s''),
       filepath_Join = (\<lambda>dir name. dir @ ''/'' @ name),
       json_Unmarshal = (\<lambda>data c. if data = ''{}'' then (None, c)
                                    else (Some ''invalid character'', c)),
       os_Args = [''shellcast''] \<rparr>"

definition world0 :: world where
  "world0 =
     \<lparr> files = Map.empty, dirs = {}, term_out = [], term_err = [], started = [],
       children = [], ticks = 0, clock = (\<lambda>k. int k * 1000000000),
       fails = (\<lambda>k. None), rnd = (\<lambda>k. k),
       exec = (\<lambda>argv. StartFails ''executable file not found'') \<rparr>"

definition world1 :: world where
  "world1 = world0\<lparr> exec := (\<lambda>argv. Runs [''A''] [''E''] 0) \<rparr>"

definition session0 :: ShellCast where
  "session0 = fst (NewShellCast GetDefaultConfig world0)"

text \<open>
  Further explicit inputs: a session whose capture file was configured by the caller,
  in a world where that file exists; a world whose clock stands at 0 when the session is
  created, at 100 seconds while the recording is started and at 160 seconds when it is
  stopped; a session with timestamps switched on; a world where every command writes one
  line of 65536 bytes to its standard output and exits with status 0; a world where the
  command line \<^verbatim>\<open>echo A\<close> writes the line \<^verbatim>\<open>A\<close> to its standard output and exits
  with status 0, and no other command can be started.
\<close>

definition configured :: ShellCast where
  "configured = session0\<lparr> config := GetDefaultConfig\<lparr> OutputFile := ''capture.txt'' \<rparr> \<rparr>"

definition world2 :: world where
  "world2 = world1\<lparr> files := [''capture.txt'' \<mapsto> ''kept''] \<rparr>"

definition world3 :: world where
  "world3 = world1\<lparr> clock := (\<lambda>k. if k = 0 then 0
                                    else if k \<le> 4 then 100 * Second else 160 * Second) \<rparr>"

definition stamped :: ShellCast where
  "stamped = session0\<lparr> config := GetDefaultConfig\<lparr> ShowTimestamp := True \<rparr> \<rparr>"

definition world4 :: world where
  "world4 = world0\<lparr> exec := (\<lambda>argv. Runs [replicate 65536 CHR ''x''] [] 0) \<rparr>"


section \<open>Vocabulary of the statements\<close>

text \<open>
  The invariant of the lifecycle operations: the encoder's process is recorded exactly
  while the session is streaming, and while it is recording the path of the recording
  is set.
\<close>

definition handlesAgree :: "ShellCast \<Rightarrow> bool" where
  "handlesAgree s \<longleftrightarrow>
     (streamProc s \<noteq> None) = streaming s \<and> (recording s \<longrightarrow> recordPath s \<noteq> [])"

text \<open>
  A line as the timestamp policy of a configuration formats it when the clock reads \<open>t\<close>;
  the text that publishing a sequence of lines appends to the buffer, each entry being the
  stream a line came from, the clock reading at which it was formatted and the text handed
  to \<open>formatOutput\<close>; and the texts of the entries that came from one stream, in order.
\<close>

definition stampLine :: "stdlib \<Rightarrow> Config \<Rightarrow> int \<Rightarrow> string \<Rightarrow> string" where
  "stampLine L c t line =
     (if ShowTimestamp c then ''['' @ time_Format L (TimestampFormat c) t @ ''] '' @ line
      else line)"

definition published :: "stdlib \<Rightarrow> Config \<Rightarrow> (origin \<times> int \<times> string) list \<Rightarrow> string" where
  "published L c ps = concat (map (\<lambda>(src, t, line). stampLine L c t line @ nl) ps)"

definition linesOf :: "origin \<Rightarrow> (origin \<times> int \<times> string) list \<Rightarrow> string list" where
  "linesOf src ps =
     map (\<lambda>(src', t, line). line) (filter (\<lambda>(src', t, line). src' = src) ps)"



section \<open>Theme application and configuration loading\<close>

lemma dom_GetThemePresets:
  "dom GetThemePresets = {''default'', ''hacker'', ''solarized'', ''light'', ''monokai''}"
  by (auto simp: GetThemePresets_def)

text \<open>
  C9. The presets are the five names listed. For a name that is not a preset,
  \<open>ApplyTheme\<close> returns the theme-not-found error and the configuration is unchanged in
  every field. For a preset it returns no error, sets \<open>ThemeName\<close> to the name and
  \<open>FontColor\<close>, \<open>BackgroundColor\<close> to the preset's colours, and leaves each of the other
  twelve fields as it was.
\<close>

theorem ApplyTheme_frame:
  "dom GetThemePresets = {''default'', ''hacker'', ''solarized'', ''light'', ''monokai''}
   \<and> (themeName \<notin> dom GetThemePresets \<longrightarrow>
        ApplyTheme themeName c = (Some (ThemeNotFound themeName), c))
   \<and> (\<forall>theme. GetThemePresets themeName = Some theme \<longrightarrow>
        fst (ApplyTheme themeName c) = None
        \<and> ThemeName (snd (ApplyTheme themeName c)) = themeName
        \<and> FontColor (snd (ApplyTheme themeName c)) = FontColor_t theme
        \<and> BackgroundColor (snd (ApplyTheme themeName c)) = BackgroundColor_t theme
        \<and> RTMPUrl (snd (ApplyTheme themeName c)) = RTMPUrl c
        \<and> FFmpegPath (snd (ApplyTheme themeName c)) = FFmpegPath c
        \<and> FontSize (snd (ApplyTheme themeName c)) = FontSize c
        \<and> OutputFile (snd (ApplyTheme themeName c)) = OutputFile c
        \<and> ShowTimestamp (snd (ApplyTheme themeName c)) = ShowTimestamp c
        \<and> TimestampFormat (snd (ApplyTheme themeName c)) = TimestampFormat c
        \<and> ScreenWidth (snd (ApplyTheme themeName c)) = ScreenWidth c
        \<and> ScreenHeight (snd (ApplyTheme themeName c)) = ScreenHeight c
        \<and> RecordSession (snd (ApplyTheme themeName c)) = RecordSession c
        \<and> RecordPath (snd (ApplyTheme themeName c)) = RecordPath c
        \<and> SplitScreen (snd (ApplyTheme themeName c)) = SplitScreen c
        \<and> SplitCommands (snd (ApplyTheme themeName c)) = SplitCommands c)"
proof (intro conjI impI allI)
  show "dom GetThemePresets = {''default'', ''hacker'', ''solarized'', ''light'', ''monokai''}"
    by (rule dom_GetThemePresets)
next
  assume "themeName \<notin> dom GetThemePresets"
  then have "GetThemePresets themeName = None"
    by (simp add: domIff)
  then show "ApplyTheme themeName c = (Some (ThemeNotFound themeName), c)"
    by (simp add: ApplyTheme_def)
qed (simp_all add: ApplyTheme_def)

theorem ApplyTheme_frame_witness:
  "''nope'' \<notin> dom GetThemePresets
   \<and> ApplyTheme ''nope'' GetDefaultConfig = (Some (ThemeNotFound ''nope''), GetDefaultConfig)
   \<and> GetThemePresets ''hacker''
       = Some \<lparr> Name = ''Hacker'', FontColor_t = ''lime'', BackgroundColor_t = ''black'',
                BorderColor = ''green'', HighlightColor = ''red'' \<rparr>
   \<and> fst (ApplyTheme ''hacker'' GetDefaultConfig) = None
   \<and> ThemeName (snd (ApplyTheme ''hacker'' GetDefaultConfig)) = ''hacker''
   \<and> FontColor (snd (ApplyTheme ''hacker'' GetDefaultConfig)) = ''lime''
   \<and> BackgroundColor (snd (ApplyTheme ''hacker'' GetDefaultConfig)) = ''black''
   \<and> FontSize (snd (ApplyTheme ''hacker'' GetDefaultConfig)) = 24"
proof -
  have absent: "''nope'' \<notin> dom GetThemePresets"
    by (simp add: dom_GetThemePresets)
  have present: "GetThemePresets ''hacker''
       = Some \<lparr> Name = ''Hacker'', FontColor_t = ''lime'', BackgroundColor_t = ''black'',
                BorderColor = ''green'', HighlightColor = ''red'' \<rparr>"
    by (simp add: GetThemePresets_def)
  from absent present
    ApplyTheme_frame [of "''nope''" GetDefaultConfig]
    ApplyTheme_frame [of "''hacker''" GetDefaultConfig]
  show ?thesis
    by (simp add: GetDefaultConfig_def)
qed



section \<open>The lifecycle operations\<close>

lemma strings_Split_nonempty: "strings_Split s sep \<noteq> []"
  by (induction s) (auto split: list.splits)

lemma session0_eq:
  "session0 = \<lparr> config = GetDefaultConfig, outputBuffer = [], streaming = False,
       streamProc = None, recording = False, recordPath = [], startTime = 0 \<rparr>"
  by (simp add: session0_def NewShellCast_def time_Now_def world0_def)

lemma started_streaming:
  "fst (StartStreaming (session0, world1)) = None"
  "streaming (fst (snd (StartStreaming (session0, world1))))"
  by (simp_all add: StartStreaming_def session0_eq world1_def world0_def GetDefaultConfig_def
        os_CreateTemp_def os_call_def os_rnd_def tick_def os_WriteFile_def cmd_Start_def
        Let_def)

lemma started_recording:
  "fst (StartRecording lib0 (session0, world1)) = None"
  "recording (fst (snd (StartRecording lib0 (session0, world1))))"
  by (simp_all add: StartRecording_def session0_eq world1_def world0_def GetDefaultConfig_def
        os_Stat_IsNotExist_def os_MkdirAll_def time_Now_def
        os_call_def os_rnd_def tick_def os_WriteFile_def Let_def)

text \<open>
  C6. Each of the four operations returns its state-conflict error exactly when the
  session is in the conflicting state (for \<open>StopStreaming\<close>: not streaming, or no encoder
  process recorded), and a call that returns it leaves the session and the world, hence
  every file, as they were.
\<close>

theorem state_conflict_no_mutation:
  "(fst (StartStreaming (s, w)) = Some AlreadyStreaming \<longleftrightarrow> streaming s)
   \<and> (fst (StartStreaming (s, w)) = Some AlreadyStreaming \<longrightarrow>
        snd (StartStreaming (s, w)) = (s, w))
   \<and> (fst (StopStreaming (s, w)) = Some NotStreaming \<longleftrightarrow>
        \<not> streaming s \<or> streamProc s = None)
   \<and> (fst (StopStreaming (s, w)) = Some NotStreaming \<longrightarrow>
        snd (StopStreaming (s, w)) = (s, w))
   \<and> (fst (StartRecording L (s, w)) = Some AlreadyRecording \<longleftrightarrow> recording s)
   \<and> (fst (StartRecording L (s, w)) = Some AlreadyRecording \<longrightarrow>
        snd (StartRecording L (s, w)) = (s, w))
   \<and> (fst (StopRecording L (s, w)) = Some NotRecording \<longleftrightarrow> \<not> recording s)
   \<and> (fst (StopRecording L (s, w)) = Some NotRecording \<longrightarrow>
        snd (StopRecording L (s, w)) = (s, w))"
proof -
  have a: "(fst (StartStreaming (s, w)) = Some AlreadyStreaming \<longleftrightarrow> streaming s)"
      "(fst (StartStreaming (s, w)) = Some AlreadyStreaming \<longrightarrow>
        snd (StartStreaming (s, w)) = (s, w))"
    by (cases "streaming s";
        simp add: StartStreaming_def split: prod.split option.split sum.split)+
  have b: "(fst (StopStreaming (s, w)) = Some NotStreaming \<longleftrightarrow>
        \<not> streaming s \<or> streamProc s = None)"
      "(fst (StopStreaming (s, w)) = Some NotStreaming \<longrightarrow>
        snd (StopStreaming (s, w)) = (s, w))"
    by (simp_all add: StopStreaming_def Let_def split: prod.split option.split)
  have c: "(fst (StartRecording L (s, w)) = Some AlreadyRecording \<longleftrightarrow> recording s)"
      "(fst (StartRecording L (s, w)) = Some AlreadyRecording \<longrightarrow>
        snd (StartRecording L (s, w)) = (s, w))"
    by (cases "recording s";
        simp add: StartRecording_def Let_def split: prod.split option.split)+
  have d: "(fst (StopRecording L (s, w)) = Some NotRecording \<longleftrightarrow> \<not> recording s)"
      "(fst (StopRecording L (s, w)) = Some NotRecording \<longrightarrow>
        snd (StopRecording L (s, w)) = (s, w))"
    by (cases "recording s";
        simp add: StopRecording_def split: prod.split option.split)+
  show ?thesis
    by (intro conjI a b c d)
qed

theorem state_conflict_no_mutation_witness:
  "fst (StartStreaming (snd (StartStreaming (session0, world1)))) = Some AlreadyStreaming
   \<and> snd (StartStreaming (snd (StartStreaming (session0, world1))))
       = snd (StartStreaming (session0, world1))
   \<and> fst (StopStreaming (session0, world1)) = Some NotStreaming
   \<and> snd (StopStreaming (session0, world1)) = (session0, world1)
   \<and> fst (StartRecording lib0 (snd (StartRecording lib0 (session0, world1))))
       = Some AlreadyRecording
   \<and> snd (StartRecording lib0 (snd (StartRecording lib0 (session0, world1))))
       = snd (StartRecording lib0 (session0, world1))
   \<and> fst (StopRecording lib0 (session0, world1)) = Some NotRecording
   \<and> snd (StopRecording lib0 (session0, world1)) = (session0, world1)"
proof -
  have idle: "\<not> streaming session0" "\<not> recording session0"
    by (simp_all add: session0_eq)
  from idle started_streaming(2) started_recording(2)
    state_conflict_no_mutation [of "fst (snd (StartStreaming (session0, world1)))"
      "snd (snd (StartStreaming (session0, world1)))" lib0]
    state_conflict_no_mutation [of "fst (snd (StartRecording lib0 (session0, world1)))"
      "snd (snd (StartRecording lib0 (session0, world1)))" lib0]
    state_conflict_no_mutation [of session0 world1 lib0]
  show ?thesis
    by simp
qed

text \<open>
  C2, as the code has it. A successful \<open>StopStreaming\<close> clears the configured capture
  path, leaves every other file alone, and removes the file the path named whenever the
  path was not empty and the removal itself does not fail. Who created the file plays no
  part: the session keeps no record of it.
\<close>

theorem StopStreaming_removes_output_file:
  assumes "StopStreaming (s, w) = (None, s', w')"
  shows "OutputFile (config s') = []
     \<and> (\<forall>p. p \<noteq> OutputFile (config s) \<longrightarrow> files w' p = files w p)
     \<and> (OutputFile (config s) \<noteq> [] \<and> fails w (Suc (ticks w)) = None \<longrightarrow>
          files w' (OutputFile (config s)) = None)"
  using assms
  by (auto simp: StopStreaming_def Let_def proc_Kill_def os_Remove_def os_call_def tick_def
        fmt_Print_def split: option.splits if_splits prod.splits)

lemma streaming_configured:
  "fst (StartStreaming (configured, world2)) = None"
  "OutputFile (config (fst (snd (StartStreaming (configured, world2))))) = ''capture.txt''"
  "fails (snd (snd (StartStreaming (configured, world2)))) = (\<lambda>k. None)"
  "dom (files (snd (snd (StartStreaming (configured, world2))))) = {''capture.txt''}"
  "fst (StopStreaming (snd (StartStreaming (configured, world2)))) = None"
  by (simp_all add: StartStreaming_def StopStreaming_def configured_def session0_eq world2_def
        world1_def world0_def GetDefaultConfig_def os_CreateTemp_def os_call_def os_rnd_def
        tick_def os_WriteFile_def cmd_Start_def proc_Kill_def os_Remove_def fmt_Print_def
        Let_def)

theorem StopStreaming_removes_output_file_witness:
  "StopStreaming (snd (StartStreaming (configured, world2)))
     = (None, snd (StopStreaming (snd (StartStreaming (configured, world2)))))
   \<and> OutputFile (config (fst (snd (StartStreaming (configured, world2))))) = ''capture.txt''
   \<and> OutputFile (config (fst (snd (StopStreaming (snd (StartStreaming (configured, world2)))))))
       = []
   \<and> files (snd (snd (StopStreaming (snd (StartStreaming (configured, world2))))))
        ''capture.txt'' = None"
proof -
  have stop: "StopStreaming (fst (snd (StartStreaming (configured, world2))),
                             snd (snd (StartStreaming (configured, world2))))
     = (None, fst (snd (StopStreaming (snd (StartStreaming (configured, world2))))),
        snd (snd (StopStreaming (snd (StartStreaming (configured, world2))))))"
    using streaming_configured(5) by (simp add: prod_eq_iff)
  from StopStreaming_removes_output_file [OF stop] streaming_configured(2,3,5)
  show ?thesis
    by (simp add: prod_eq_iff)
qed

text \<open>
  C2 as stated fails: the caller configured \<^verbatim>\<open>capture.txt\<close>, which existed before the
  session, \<open>StartStreaming\<close> created no file of its own, and \<open>StopStreaming\<close> removed it.
\<close>

theorem StopStreaming_spares_configured_file_counterexample:
  "OutputFile (config configured) = ''capture.txt''
   \<and> files world2 ''capture.txt'' = Some ''kept''
   \<and> fst (StartStreaming (configured, world2)) = None
   \<and> dom (files (snd (snd (StartStreaming (configured, world2))))) = {''capture.txt''}
   \<and> fst (StopStreaming (snd (StartStreaming (configured, world2)))) = None
   \<and> files (snd (snd (StopStreaming (snd (StartStreaming (configured, world2))))))
        ''capture.txt'' = None"
  by (simp add: StartStreaming_def StopStreaming_def configured_def session0_eq world2_def
        world1_def world0_def GetDefaultConfig_def os_CreateTemp_def os_call_def os_rnd_def
        tick_def os_WriteFile_def cmd_Start_def proc_Kill_def os_Remove_def fmt_Print_def
        Let_def)

text \<open>
  C3. What the code does: \<open>StartRecording\<close> never assigns \<open>startTime\<close>, which holds the
  time the session was created, and the footer's duration is counted from it. In
  \<open>world3\<close> the session is created at 0 s, the recording starts at 100 s and stops at
  160 s; the header says it started at 100, the footer that it ended at 160, and the
  duration printed is 160 s, not 60 s.
\<close>

theorem StopRecording_duration_since_session_start:
  "startTime (fst (snd (StartRecording L (s, w)))) = startTime s
   \<and> startTime (fst (NewShellCast GetDefaultConfig world3)) = 0
   \<and> fst (StartRecording lib0 (NewShellCast GetDefaultConfig world3)) = None
   \<and> fst (StopRecording lib0 (snd (StartRecording lib0 (NewShellCast GetDefaultConfig world3))))
       = None
   \<and> files (snd (snd (StopRecording lib0
         (snd (StartRecording lib0 (NewShellCast GetDefaultConfig world3))))))
        ''./recordings/shellcast_100.txt''
       = Some (''ShellCast Recording - Started at 100'' @ nl
               @ ''Command: shellcast'' @ nl
               @ replicate 80 CHR ''-'' @ nl @ nl
               @ nl @ nl @ replicate 80 CHR ''-'' @ nl
               @ ''Recording ended at 160'' @ nl
               @ ''Duration: 160s'' @ nl)"
proof (intro conjI)
  show "startTime (fst (snd (StartRecording L (s, w)))) = startTime s"
    by (simp add: StartRecording_def Let_def split: prod.split option.split)
qed (simp_all add: NewShellCast_def StartRecording_def StopRecording_def world3_def world1_def
        world0_def GetDefaultConfig_def os_Stat_IsNotExist_def os_MkdirAll_def time_Now_def
        appendToFile_def recordingHeader_def recordingFooter_def os_call_def tick_def
        os_WriteFile_def Let_def Second_def lib0_def duration_Round_def fmt_d_def digits.simps
        digit_def fmt_Print_def smod_int_alt_def)

text \<open>
  Each lifecycle operation keeps the invariant, whatever it returns.
\<close>

lemma StartStreaming_handlesAgree:
  "handlesAgree s \<Longrightarrow> handlesAgree (fst (snd (StartStreaming (s, w))))"
  by (auto simp: StartStreaming_def handlesAgree_def
           split: prod.splits option.splits sum.splits if_splits)

lemma StopStreaming_handlesAgree:
  "handlesAgree s \<Longrightarrow> handlesAgree (fst (snd (StopStreaming (s, w))))"
  by (auto simp: StopStreaming_def handlesAgree_def Let_def
           split: prod.splits option.splits if_splits)

lemma StartRecording_handlesAgree:
  assumes "\<forall>dir name. name \<noteq> [] \<longrightarrow> filepath_Join L dir name \<noteq> []"
    and "handlesAgree s"
  shows "handlesAgree (fst (snd (StartRecording L (s, w))))"
  using assms
  by (auto simp: StartRecording_def handlesAgree_def Let_def
           split: prod.splits option.splits if_splits)

lemma StopRecording_handlesAgree:
  "handlesAgree s \<Longrightarrow> handlesAgree (fst (snd (StopRecording L (s, w))))"
  by (auto simp: StopRecording_def handlesAgree_def
           split: prod.splits option.splits if_splits)

lemma Cleanup_handlesAgree:
  assumes "handlesAgree (fst sw)"
  shows "handlesAgree (fst (Cleanup L sw))"
proof -
  obtain s w where sw: "sw = (s, w)" by (cases sw)
  define sw1 where "sw1 = (if streaming s then snd (StopStreaming (s, w)) else (s, w))"
  have 1: "handlesAgree (fst sw1)"
    using assms sw StopStreaming_handlesAgree [of s w] by (simp add: sw1_def)
  obtain s1 w1 where sw1: "sw1 = (s1, w1)" by (cases sw1)
  have "handlesAgree (fst (if recording s1 then snd (StopRecording L (s1, w1)) else (s1, w1)))"
    using 1 sw1 StopRecording_handlesAgree [of s1 L w1] by simp
  then show ?thesis
    using sw sw1 by (simp add: Cleanup_def Let_def sw1_def)
qed

lemma perform_handlesAgree:
  assumes "\<forall>dir name. name \<noteq> [] \<longrightarrow> filepath_Join L dir name \<noteq> []"
    and "handlesAgree (fst sw)"
  shows "handlesAgree (fst (perform L c sw))"
proof (cases sw)
  case (Pair s w)
  with assms show ?thesis
    by (cases c)
       (simp_all add: StartStreaming_handlesAgree StopStreaming_handlesAgree
          StartRecording_handlesAgree StopRecording_handlesAgree Cleanup_handlesAgree)
qed

lemma performAll_handlesAgree:
  assumes "\<forall>dir name. name \<noteq> [] \<longrightarrow> filepath_Join L dir name \<noteq> []"
  shows "handlesAgree (fst sw) \<Longrightarrow> handlesAgree (fst (performAll L calls sw))"
  by (induction calls arbitrary: sw) (simp_all add: perform_handlesAgree [OF assms])

lemma NewShellCast_handlesAgree: "handlesAgree (fst (NewShellCast cfg w))"
  by (simp add: NewShellCast_def handlesAgree_def split: prod.split)

text \<open>
  C5, as the code has it. \<^verbatim>\<open>filepath.Join\<close> returns a non-empty path when its last
  element is not empty. Then in every state reached from a new session by any sequence
  of \<open>StartStreaming\<close>, \<open>StopStreaming\<close>, \<open>StartRecording\<close>, \<open>StopRecording\<close> and
  \<open>Cleanup\<close> calls, whatever each call returns: the encoder's process is recorded if and
  only if the session is streaming; and if the session is recording, the recording path
  is set. (The path stays set after the recording has stopped.)
\<close>

theorem lifecycle_handles_agree:
  assumes "\<forall>dir name. name \<noteq> [] \<longrightarrow> filepath_Join L dir name \<noteq> []"
  shows "(streamProc (fst (performAll L calls (NewShellCast cfg w))) \<noteq> None)
           = streaming (fst (performAll L calls (NewShellCast cfg w)))
       \<and> (recording (fst (performAll L calls (NewShellCast cfg w))) \<longrightarrow>
            recordPath (fst (performAll L calls (NewShellCast cfg w))) \<noteq> [])"
  using performAll_handlesAgree [OF assms NewShellCast_handlesAgree, of calls cfg w]
  by (simp add: handlesAgree_def)

theorem lifecycle_handles_agree_witness:
  "(\<nexists>dir name. name \<noteq> [] \<and> filepath_Join lib0 dir name = [])
   \<and> streaming (fst (performAll lib0 [CallStartStreaming, CallStartRecording]
                       (NewShellCast GetDefaultConfig world1)))
   \<and> streamProc (fst (performAll lib0 [CallStartStreaming, CallStartRecording]
                       (NewShellCast GetDefaultConfig world1))) \<noteq> None
   \<and> recording (fst (performAll lib0 [CallStartStreaming, CallStartRecording]
                       (NewShellCast GetDefaultConfig world1)))
   \<and> recordPath (fst (performAll lib0 [CallStartStreaming, CallStartRecording]
                       (NewShellCast GetDefaultConfig world1))) \<noteq> []"
proof -
  have join: "\<forall>dir name. name \<noteq> [] \<longrightarrow> filepath_Join lib0 dir name \<noteq> []"
    by (simp add: lib0_def)
  have active:
    "streaming (fst (performAll lib0 [CallStartStreaming, CallStartRecording]
                       (NewShellCast GetDefaultConfig world1)))
     \<and> recording (fst (performAll lib0 [CallStartStreaming, CallStartRecording]
                       (NewShellCast GetDefaultConfig world1)))"
    by (simp add: NewShellCast_def StartStreaming_def StartRecording_def world1_def world0_def
          GetDefaultConfig_def os_CreateTemp_def os_call_def os_rnd_def tick_def
          os_WriteFile_def cmd_Start_def fmt_Print_def os_Stat_IsNotExist_def os_MkdirAll_def
          time_Now_def Let_def)
  from active join
    lifecycle_handles_agree [OF join, of "[CallStartStreaming, CallStartRecording]"
      GetDefaultConfig world1]
  show ?thesis
    by blast
qed

text \<open>
  C5 as stated fails in its recording half: after a recording has been started and
  stopped, the session is not recording and the recording path is still set.
\<close>

theorem recordPath_outlives_recording_counterexample:
  "\<not> recording (fst (performAll lib0 [CallStartRecording, CallStopRecording]
                       (NewShellCast GetDefaultConfig world1)))
   \<and> recordPath (fst (performAll lib0 [CallStartRecording, CallStopRecording]
                       (NewShellCast GetDefaultConfig world1)))
       = ''./recordings/shellcast_2.txt''"
  by (simp add: NewShellCast_def StopRecording_def StartRecording_def world1_def world0_def
        GetDefaultConfig_def os_call_def tick_def os_WriteFile_def appendToFile_def
        fmt_Print_def os_Stat_IsNotExist_def os_MkdirAll_def time_Now_def Let_def lib0_def
        fmt_d_def digits.simps digit_def)

section \<open>Running commands\<close>

text \<open>
  C8. What the code does: splitting the empty command gives one empty part, so the guard
  on the number of parts never fires and \<open>ExecuteCommand\<close> never returns the
  empty-command error. For the empty command it goes on to create the pipes and to call
  \<^verbatim>\<open>cmd.Start\<close> with the program name \<^verbatim>\<open>""\<close>; the error it returns is the one of
  the failed start.
\<close>

theorem ExecuteCommand_empty_command:
  "strings_Split [] CHR '' '' = [[]]
   \<and> fst (ExecuteCommand L command sw) \<noteq> Some EmptyCommand
   \<and> ExecuteCommand lib0 [] (session0, world0)
       = (Some (StartError ''executable file not found''), session0,
          world0\<lparr> ticks := 2, started := [[[]]] \<rparr>)"
proof (intro conjI)
  show "fst (ExecuteCommand L command sw) \<noteq> Some EmptyCommand"
    by (cases sw)
       (simp add: ExecuteCommand_def Let_def strings_Split_nonempty
             split: prod.split option.split spawn.split)
  show "ExecuteCommand lib0 [] (session0, world0)
       = (Some (StartError ''executable file not found''), session0,
          world0\<lparr> ticks := 2, started := [[[]]] \<rparr>)"
    by (simp add: ExecuteCommand_def world0_def os_call_def tick_def)
qed simp

text \<open>
  C4, as the code has it. In split mode the loop body hands the prefix followed by the
  line to \<open>formatOutput\<close>, so with timestamps switched on the line appended to the buffer
  is the timestamp bracket, then the prefix, then the line; without timestamps it is the
  prefix and the line.
\<close>

theorem split_line_format:
  assumes "i < length rs" and "rs ! i = (src, prefix, line # rest)"
  shows "outputBuffer (fst (snd (readerStep L i rs (s, w))))
         = outputBuffer s
           @ (if ShowTimestamp (config s)
              then ''['' @ time_Format L (TimestampFormat (config s)) (clock w (ticks w)) @ ''] ''
              else [])
           @ prefix @ line @ nl"
  using assms
  by (simp add: readerStep_def scanBody_def formatOutput_def time_Now_def Let_def
           split: prod.split)

theorem split_line_format_witness:
  "(0::nat) < length [(Stdout, ''[CMD1] '', [''A''])]
   \<and> [(Stdout, ''[CMD1] '', [''A''])] ! 0 = (Stdout, ''[CMD1] '', ''A'' # [])
   \<and> outputBuffer
        (fst (snd (readerStep lib0 0 [(Stdout, ''[CMD1] '', [''A''])]
                     (stamped, world0\<lparr> ticks := 7 \<rparr>))))
      = ''[7] [CMD1] A'' @ nl"
  using split_line_format [of 0 "[(Stdout, ''[CMD1] '', [''A''])]" Stdout "''[CMD1] ''"
      "''A''" "[]" lib0 stamped "world0\<lparr> ticks := 7 \<rparr>"]
  by (simp add: stamped_def session0_eq lib0_def world0_def GetDefaultConfig_def fmt_d_def
        digits.simps digit_def)

text \<open>
  C4 as stated fails: the one line of the first command comes out with the timestamp
  first and the tag second.
\<close>

theorem tag_then_timestamp_counterexample:
  "outputBuffer (fst (snd (ExecuteSplitCommands lib0 [''echo A'']
       (stamped, world1\<lparr> rnd := (\<lambda>k. if k = 2 then 1 else 0) \<rparr>))))
     = ''[4] [CMD1] A'' @ nl
   \<and> ''[4] [CMD1] A'' \<noteq> ''[CMD1] '' @ ''[4] '' @ ''A''"
  by (simp add: ExecuteSplitCommands_def splitWorker_def Let_def world1_def world0_def
       os_call_def os_rnd_def tick_def fmt_d_def digits.simps digit_def scanLines_def
       MaxScanTokenSize_def dropCR_def readerStep_def scanBody_def formatOutput_def
       time_Now_def fmt_Print_def stamped_def session0_eq lib0_def GetDefaultConfig_def)

text \<open>
  What one pass through the loop body and the two reading goroutines of \<open>ExecuteCommand\<close>
  do to the buffer.
\<close>

lemma published_Cons:
  "published L c ((src, t, line) # ps) = stampLine L c t line @ nl @ published L c ps"
  by (simp add: published_def)

lemma linesOf_Cons:
  "linesOf src ((src', t, line) # ps)
     = (if src' = src then line # linesOf src ps else linesOf src ps)"
  by (simp add: linesOf_def)

lemma scanBody_fields:
  "outputBuffer (fst (scanBody L src text (s, w)))
     = outputBuffer s @ stampLine L (config s) (clock w (ticks w)) text @ nl"
  "config (fst (scanBody L src text (s, w))) = config s"
  by (simp_all add: scanBody_def formatOutput_def stampLine_def time_Now_def Let_def
        split: prod.split)

lemma drain2_buffer:
  "\<exists>ps. outputBuffer (fst (drain2 L xs ys sw))
            = outputBuffer (fst sw) @ published L (config (fst sw)) ps
        \<and> linesOf Stdout ps = xs \<and> linesOf Stderr ps = ys
        \<and> config (fst (drain2 L xs ys sw)) = config (fst sw)"
proof (induction L xs ys sw rule: drain2.induct)
  case (1 L sw)
  have "published L (config (fst sw)) [] = []" "linesOf Stdout [] = []" "linesOf Stderr [] = []"
    by (simp_all add: published_def linesOf_def)
  then show ?case by (intro exI [of _ "[]"]) simp
next
  case (2 L x xs sw)
  obtain s w where sw: "sw = (s, w)" by (cases sw)
  from 2 obtain ps where ps:
    "outputBuffer (fst (drain2 L xs [] (scanBody L Stdout x sw)))
       = outputBuffer (fst (scanBody L Stdout x sw))
         @ published L (config (fst (scanBody L Stdout x sw))) ps"
    "linesOf Stdout ps = xs" "linesOf Stderr ps = []"
    "config (fst (drain2 L xs [] (scanBody L Stdout x sw)))
       = config (fst (scanBody L Stdout x sw))"
    by blast
  show ?case
    using ps sw
    by (intro exI [of _ "(Stdout, clock w (ticks w), x) # ps"])
       (simp add: scanBody_fields published_Cons linesOf_Cons)
next
  case (3 L y ys sw)
  obtain s w where sw: "sw = (s, w)" by (cases sw)
  from 3 obtain ps where ps:
    "outputBuffer (fst (drain2 L [] ys (scanBody L Stderr y sw)))
       = outputBuffer (fst (scanBody L Stderr y sw))
         @ published L (config (fst (scanBody L Stderr y sw))) ps"
    "linesOf Stdout ps = []" "linesOf Stderr ps = ys"
    "config (fst (drain2 L [] ys (scanBody L Stderr y sw)))
       = config (fst (scanBody L Stderr y sw))"
    by blast
  show ?case
    using ps sw
    by (intro exI [of _ "(Stderr, clock w (ticks w), y) # ps"])
       (simp add: scanBody_fields published_Cons linesOf_Cons)
next
  case (4 L x xs y ys sw)
  obtain s w where sw: "sw = (s, w)" by (cases sw)
  define w1 where "w1 = snd (os_rnd w)"
  show ?case
  proof (cases "even (fst (os_rnd (snd sw)))")
    case True
    from 4(1) [OF True] obtain ps where ps:
      "outputBuffer (fst (drain2 L xs (y # ys) (scanBody L Stdout x (s, w1))))
         = outputBuffer (fst (scanBody L Stdout x (s, w1)))
           @ published L (config (fst (scanBody L Stdout x (s, w1)))) ps"
      "linesOf Stdout ps = xs" "linesOf Stderr ps = y # ys"
      "config (fst (drain2 L xs (y # ys) (scanBody L Stdout x (s, w1))))
         = config (fst (scanBody L Stdout x (s, w1)))"
      unfolding sw w1_def by auto
    show ?thesis
      using ps sw True
      by (intro exI [of _ "(Stdout, clock w1 (ticks w1), x) # ps"])
         (simp add: scanBody_fields published_Cons linesOf_Cons w1_def)
  next
    case False
    from 4(2) [OF False] obtain ps where ps:
      "outputBuffer (fst (drain2 L (x # xs) ys (scanBody L Stderr y (s, w1))))
         = outputBuffer (fst (scanBody L Stderr y (s, w1)))
           @ published L (config (fst (scanBody L Stderr y (s, w1)))) ps"
      "linesOf Stdout ps = x # xs" "linesOf Stderr ps = ys"
      "config (fst (drain2 L (x # xs) ys (scanBody L Stderr y (s, w1))))
         = config (fst (scanBody L Stderr y (s, w1)))"
      unfolding sw w1_def by auto
    show ?thesis
      using ps sw False
      by (intro exI [of _ "(Stderr, clock w1 (ticks w1), y) # ps"])
         (simp add: scanBody_fields published_Cons linesOf_Cons w1_def)
  qed
qed

lemma scanLines_short:
  assumes "\<forall>l \<in> set raw. length l < MaxScanTokenSize"
  shows "scanLines raw = map dropCR raw"
proof -
  have "takeWhile (\<lambda>l. length l < MaxScanTokenSize) raw = raw"
    using assms by simp
  then show ?thesis
    unfolding scanLines_def by (rule arg_cong)
qed

text \<open>
  C1, as the code has it. Let both pipes be created and let the command start, write
  the lines \<open>outs\<close> to its standard output and \<open>errs\<close> to its standard error, each
  shorter than 65536 bytes, and exit with status 0. Then \<open>ExecuteCommand\<close> returns no
  error, and what it appends to the buffer is a sequence of formatted lines, each
  followed by a newline and formatted by the timestamp policy at the time it was read,
  in which the lines from standard output are exactly \<open>outs\<close>, in order and each once,
  and those from standard error exactly \<open>errs\<close> (each less a trailing carriage return,
  which the scanner takes for part of the line's end).
\<close>

theorem ExecuteCommand_buffer:
  assumes "fails w (ticks w) = None" and "fails w (Suc (ticks w)) = None"
    and "exec w (strings_Split command CHR '' '') = Runs outs errs 0"
    and "\<forall>l \<in> set outs \<union> set errs. length l < MaxScanTokenSize"
  shows "fst (ExecuteCommand L command (s, w)) = None
     \<and> (\<exists>ps. outputBuffer (fst (snd (ExecuteCommand L command (s, w))))
                 = outputBuffer s @ published L (config s) ps
             \<and> linesOf Stdout ps = map dropCR outs
             \<and> linesOf Stderr ps = map dropCR errs)"
proof -
  define parts where "parts = strings_Split command CHR '' ''"
  define w3 where "w3 = (tick (tick w))\<lparr> started := started (tick (tick w)) @ [parts] \<rparr>"
  have scan: "scanLines outs = map dropCR outs" "scanLines errs = map dropCR errs"
    using assms(4) by (simp_all add: scanLines_short)
  have run: "ExecuteCommand L command (s, w)
       = (None, drain2 L (map dropCR outs) (map dropCR errs) (s, w3))"
    using assms(1-3) strings_Split_nonempty [of command "CHR '' ''"]
    by (simp add: ExecuteCommand_def Let_def os_call_def tick_def scan w3_def parts_def
          split: prod.split)
  from drain2_buffer [of L "map dropCR outs" "map dropCR errs" "(s, w3)"]
  show ?thesis
    by (auto simp: run)
qed

theorem ExecuteCommand_buffer_witness:
  "fails world1 (ticks world1) = None \<and> fails world1 (Suc (ticks world1)) = None
   \<and> exec world1 (strings_Split ''echo hi'' CHR '' '') = Runs [''A''] [''E''] 0
   \<and> length ''A'' < MaxScanTokenSize \<and> length ''E'' < MaxScanTokenSize
   \<and> fst (ExecuteCommand lib0 ''echo hi'' (stamped, world1)) = None
   \<and> (\<exists>ps. outputBuffer (fst (snd (ExecuteCommand lib0 ''echo hi'' (stamped, world1))))
                = outputBuffer stamped @ published lib0 (config stamped) ps
            \<and> linesOf Stdout ps = map dropCR [''A'']
            \<and> linesOf Stderr ps = map dropCR [''E''])
   \<and> outputBuffer (fst (snd (ExecuteCommand lib0 ''echo hi'' (stamped, world1))))
       = ''[3] A'' @ nl @ ''[4] E'' @ nl"
proof -
  have pipes: "fails world1 (ticks world1) = None" "fails world1 (Suc (ticks world1)) = None"
    by (simp_all add: world1_def world0_def)
  have runs: "exec world1 (strings_Split ''echo hi'' CHR '' '') = Runs [''A''] [''E''] 0"
    by (simp add: world1_def world0_def)
  have short: "\<forall>l \<in> set [''A''] \<union> set [''E'']. length l < MaxScanTokenSize"
    by (simp add: MaxScanTokenSize_def)
  have buffer: "outputBuffer (fst (snd (ExecuteCommand lib0 ''echo hi'' (stamped, world1))))
       = ''[3] A'' @ nl @ ''[4] E'' @ nl"
    by (simp add: ExecuteCommand_def Let_def world1_def world0_def os_call_def os_rnd_def
          tick_def scanLines_def MaxScanTokenSize_def dropCR_def scanBody_def formatOutput_def
          time_Now_def fmt_Print_def fmt_Eprint_def stamped_def session0_eq lib0_def
          GetDefaultConfig_def fmt_d_def digits.simps digit_def)
  from pipes runs short buffer
    ExecuteCommand_buffer [OF pipes runs short, of lib0 stamped]
  show ?thesis
    by simp
qed

text \<open>
  C1 as stated fails: the command writes one line of 65536 bytes and exits with status
  0; \<open>ExecuteCommand\<close> returns no error and the buffer is as empty as it was.
\<close>

theorem long_line_lost_counterexample:
  "exec world4 (strings_Split ''big'' CHR '' '') = Runs [replicate 65536 CHR ''x''] [] 0
   \<and> ExecuteCommand lib0 ''big'' (session0, world4)
       = (None, session0, world4\<lparr> ticks := 2, started := [[''big'']] \<rparr>)
   \<and> outputBuffer session0 = []"
  by (simp add: ExecuteCommand_def world4_def world0_def os_call_def tick_def scanLines_def
        MaxScanTokenSize_def session0_eq)

subsection \<open>Split mode\<close>

lemma splitWorker_exec: "exec (snd (snd (splitWorker idx command w))) = exec w"
  by (simp add: splitWorker_def Let_def os_call_def tick_def fmt_Print_def fmt_Eprint_def
        split: option.split spawn.split)


lemma splitWorkers_exec: "exec (snd (snd (splitWorkers idx cmds w))) = exec w"
proof (induction cmds arbitrary: idx w)
  case Nil
  show ?case by simp
next
  case (Cons cmd cmds)
  obtain rs msg w1 where 1: "splitWorker idx cmd w = (rs, msg, w1)" by (cases "splitWorker idx cmd w") auto
  obtain rs' msgs w2 where 2: "splitWorkers (Suc idx) cmds w1 = (rs', msgs, w2)"
    by (cases "splitWorkers (Suc idx) cmds w1") auto
  from Cons [of "Suc idx" w1] splitWorker_exec [of idx cmd w] 1 2
  show ?case by simp
qed














end
